theory Spec2Isabelle
  imports Main "HOL-Library.Sublist"
begin

section \<open>Python text primitives used by fact\_check\_bot.py\<close>

text \<open>
  Python strings are sequences of code points. They are modelled as \<^typ>\<open>string\<close>, one
  \<^typ>\<open>char\<close> per code point, so the model covers the code points below 256 (Latin-1);
  \<open>length\<close> is Python's \<open>len\<close>. The character classes below are those of Python 3
  on that range: \<open>str.isspace\<close> and the regular-expression classes \<open>\s\<close>, \<open>\w\<close>,
  \<open>\d\<close> for \<open>str\<close> patterns.

  Python's \<open>sub in s\<close> on strings is \<^const>\<open>sublist\<close>, \<open>s.startswith(p)\<close> is
  \<^const>\<open>prefix\<close>.
\<close>

definition code_point :: "char \<Rightarrow> nat" where
  "code_point c = of_char c"

definition newline :: char where
  "newline = CHR 0x0A"

definition is_space :: "char \<Rightarrow> bool" where
  "is_space c = (code_point c \<in> {9, 10, 11, 12, 13, 28, 29, 30, 31, 32, 133, 160})"

definition is_digit :: "char \<Rightarrow> bool" where
  "is_digit c = (48 \<le> code_point c \<and> code_point c \<le> 57)"

definition is_word_char :: "char \<Rightarrow> bool" where
  "is_word_char c = (let n = code_point c in
     (48 \<le> n \<and> n \<le> 57) \<or> (65 \<le> n \<and> n \<le> 90) \<or> n = 95 \<or> (97 \<le> n \<and> n \<le> 122) \<or>
     n = 170 \<or> n = 178 \<or> n = 179 \<or> n = 181 \<or> n = 185 \<or> n = 186 \<or>
     (188 \<le> n \<and> n \<le> 190) \<or> (192 \<le> n \<and> n \<le> 214) \<or> (216 \<le> n \<and> n \<le> 246) \<or>
     (248 \<le> n \<and> n \<le> 255))"

definition lower_char :: "char \<Rightarrow> char" where
  "lower_char c = (let n = code_point c in
     if (65 \<le> n \<and> n \<le> 90) \<or> (192 \<le> n \<and> n \<le> 214) \<or> (216 \<le> n \<and> n \<le> 222)
     then char_of (n + 32) else c)"

definition lower :: "string \<Rightarrow> string" where
  "lower s = map lower_char s"

definition strip :: "string \<Rightarrow> string" where
  "strip s = rev (dropWhile is_space (rev (dropWhile is_space s)))"

fun join :: "string \<Rightarrow> string list \<Rightarrow> string" where
  "join sep [] = []"
| "join sep [x] = x"
| "join sep (x # y # ys) = x @ sep @ join sep (y # ys)"

text \<open>\<open>int(s)\<close> on a string of decimal digits, and \<open>str(n)\<close> on an integer.\<close>

definition digit_value :: "char \<Rightarrow> int" where
  "digit_value c = int (code_point c) - 48"

definition int_of_digits :: "string \<Rightarrow> int" where
  "int_of_digits s = foldl (\<lambda>n c. 10 * n + digit_value c) 0 s"

fun str_nat :: "nat \<Rightarrow> string" where
  "str_nat n = (if n < 10 then [char_of (48 + n)] else str_nat (n div 10) @ [char_of (48 + n mod 10)])"

declare str_nat.simps [simp del]

definition str_int :: "int \<Rightarrow> string" where
  "str_int i = (if i < 0 then CHR ''-'' # str_nat (nat (- i)) else str_nat (nat i))"

section \<open>Exceptions, external calls and their trace\<close>

text \<open>
  An exception is a value; \<open>exn_msg\<close> is \<open>str(e)\<close>. \<open>RequestException\<close> stands for
  \<open>requests.exceptions.RequestException\<close> and its subclasses, \<open>PyException\<close> for every
  other subclass of \<open>Exception\<close>.
\<close>

datatype exn = RequestException (exn_msg: string) | PyException (exn_msg: string)

text \<open>
  The calls that leave the process, in the order they are made, and the entries into
  \<open>_fallback_scrape\<close>. The dictionary passed to the crew is a list of key/value pairs in
  the order of the dict literal.
\<close>

datatype event =
    FirecrawlPost string
  | FallbackScrape string
  | HttpGet string
  | Kickoff "(string \<times> string) list"
  | Search string

text \<open>
  A computation returns the trace of its events and either the exception it raised
  (\<open>Inl\<close>) or its value (\<open>Inr\<close>).
\<close>

type_synonym 'a io = "event list \<times> (exn + 'a)"

definition io_return :: "'a \<Rightarrow> 'a io" where
  "io_return x = ([], Inr x)"

definition io_call :: "event \<Rightarrow> exn + 'a \<Rightarrow> 'a io" where
  "io_call ev r = ([ev], r)"

definition io_emit :: "event \<Rightarrow> unit io" where
  "io_emit ev = ([ev], Inr ())"

definition io_lift :: "exn + 'a \<Rightarrow> 'a io" where
  "io_lift r = ([], r)"

definition io_bind :: "'a io \<Rightarrow> ('a \<Rightarrow> 'b io) \<Rightarrow> 'b io" where
  "io_bind m f = (case m of
       (t, Inl e) \<Rightarrow> (t, Inl e)
     | (t, Inr x) \<Rightarrow> (case f x of (t', r) \<Rightarrow> (t @ t', r)))"

text \<open>\<open>try: m except Exception as e: h e\<close>\<close>

definition try_except :: "'a io \<Rightarrow> (exn \<Rightarrow> 'a io) \<Rightarrow> 'a io" where
  "try_except m h = (case m of
       (t, Inl e) \<Rightarrow> (case h e of (t', r) \<Rightarrow> (t @ t', r))
     | (t, Inr x) \<Rightarrow> (t, Inr x))"

section \<open>The outside world\<close>

text \<open>
  What \<open>response.json()\<close> returns: a parsed JSON document. An object is the parsed
  \<open>dict\<close>, a list of pairs with distinct keys. Of a number the code only tests whether
  it is zero.
\<close>

datatype json =
    JNull
  | JBool bool
  | JNum int
  | JStr string
  | JArr "json list"
  | JObj "(string \<times> json) list"

text \<open>A \<open>requests.Response\<close>: \<open>.status_code\<close>, \<open>.url\<close>, \<open>.text\<close> and \<open>.json()\<close>.\<close>

record response =
  status_code :: int
  resp_url :: string
  resp_text :: string
  resp_json :: "exn + json"

text \<open>
  A BeautifulSoup \<open>Tag\<close>: \<open>.get_text()\<close>, \<open>str(tag.get('class', []))\<close> and
  \<open>.select(selector)\<close>. The parsed document answers \<open>.select(selector)\<close> and has
  \<open>.body\<close> or not. \<open>select_one\<close> returns the first element that \<open>select\<close> finds.
  A \<open>Tag\<close> is always true in a condition, so \<open>if tag:\<close> tests for \<open>None\<close>.
\<close>

datatype tag = Tag (get_text: string) (class_repr: string) (tag_select: "string \<Rightarrow> tag list")

record soup =
  soup_select :: "string \<Rightarrow> tag list"
  soup_body :: "tag option"

definition select_one :: "soup \<Rightarrow> string \<Rightarrow> tag option" where
  "select_one s selector = (case soup_select s selector of [] \<Rightarrow> None | t # _ \<Rightarrow> Some t)"

text \<open>
  What \<open>fact_check_crew.kickoff\<close> returns: a \<open>dict\<close> with the key
  \<open>"tasks_output"\<close>, given by the \<open>.raw\<close> strings of its task outputs in order, or
  anything else, given by its \<open>str(result)\<close>.
\<close>

datatype crew_result = TasksOutput "string list" | OtherResult string

text \<open>
  Everything the program reads from outside, as functions of what it sends:
  \<^item> \<open>task_context_url\<close>: the value of \<open>Task.current().context.get('url')\<close>, \<open>None\<close>
    when there is no current task or no context, or the exception the lookup raises;
  \<^item> \<open>env_firecrawl_api_key\<close>: \<open>os.environ.get("FIRECRAWL_API_KEY")\<close>;
  \<^item> \<open>requests_post\<close>: the scrape API's answer for the URL in the payload;
  \<^item> \<open>requests_get\<close>: the page fetched from a URL;
  \<^item> \<open>BeautifulSoup\<close>: the import of \<open>bs4\<close> and the parse of a page's text;
  \<^item> \<open>crew_kickoff\<close>: the crew's run on an input dictionary;
  \<^item> \<open>search_run\<close>: the search capability;
  \<^item> \<open>current_year\<close>: \<open>datetime.now().year\<close>.
\<close>

record world =
  task_context_url :: "exn + string option"
  env_firecrawl_api_key :: "string option"
  requests_post :: "string \<Rightarrow> exn + response"
  requests_get :: "string \<Rightarrow> exn + response"
  BeautifulSoup :: "string \<Rightarrow> exn + soup"
  crew_kickoff :: "(string \<times> string) list \<Rightarrow> exn + crew_result"
  search_run :: "string \<Rightarrow> exn + string"
  current_year :: int

section \<open>SearchTool.\_run\<close>

text \<open>
  \<open>re.search(r'\b(202\d|january|...|december)\b', query.lower())\<close>. An alternative is a
  list of character tests; \<open>\b\<close> holds between two positions when exactly one of the
  neighbouring characters is a word character (the outside of the string is not).
\<close>

definition lit :: "string \<Rightarrow> (char \<Rightarrow> bool) list" where
  "lit s = map (\<lambda>c d. d = c) s"

definition date_alternatives :: "(char \<Rightarrow> bool) list list" where
  "date_alternatives =
     [lit ''202'' @ [is_digit], lit ''january'', lit ''february'', lit ''march'', lit ''april'',
      lit ''may'', lit ''june'', lit ''july'', lit ''august'', lit ''september'',
      lit ''october'', lit ''november'', lit ''december'']"

definition word_boundary :: "char option \<Rightarrow> char option \<Rightarrow> bool" where
  "word_boundary before after =
     ((case before of None \<Rightarrow> False | Some c \<Rightarrow> is_word_char c) \<noteq>
      (case after of None \<Rightarrow> False | Some c \<Rightarrow> is_word_char c))"

definition first_char :: "string \<Rightarrow> char option" where
  "first_char s = (case s of [] \<Rightarrow> None | c # _ \<Rightarrow> Some c)"

definition last_char :: "string \<Rightarrow> char option" where
  "last_char s = first_char (rev s)"

definition matches_at :: "(char \<Rightarrow> bool) list \<Rightarrow> string \<Rightarrow> bool" where
  "matches_at ps s = (length ps \<le> length s \<and> list_all2 (\<lambda>p c. p c) ps (take (length ps) s))"

definition date_match_here :: "char option \<Rightarrow> string \<Rightarrow> bool" where
  "date_match_here before s =
     (word_boundary before (first_char s) \<and>
      list_ex (\<lambda>ps. matches_at ps s \<and>
                 word_boundary (last_char (take (length ps) s)) (first_char (drop (length ps) s)))
        date_alternatives)"

fun date_search_from :: "char option \<Rightarrow> string \<Rightarrow> bool" where
  "date_search_from before [] = False"
| "date_search_from before (c # cs) =
     (date_match_here before (c # cs) \<or> date_search_from (Some c) cs)"

definition date_match :: "string \<Rightarrow> bool" where
  "date_match s = date_search_from None s"

definition news_terms :: "string list" where
  "news_terms = [''bbc'', ''reuters'', ''news'', ''reported'']"

definition mentions_news :: "string \<Rightarrow> bool" where
  "mentions_news query = list_ex (\<lambda>term. sublist term (lower query)) news_terms"

text \<open>
  The tool's \<open>search_tool.run\<close> is the external search capability: its answer to a query,
  or the exception it raises. \<open>_run\<close> has no handler of its own.
\<close>

definition SearchTool_run :: "world \<Rightarrow> string \<Rightarrow> string io" where
  "SearchTool_run w query =
     (if mentions_news query
         \<and> \<not> date_match (lower query) \<and> \<not> sublist ''recent'' (lower query)
      then io_call (Search (query @ '' recent news'')) (search_run w (query @ '' recent news''))
      else if sublist ''verify'' (lower query) \<or> sublist ''fact check'' (lower query)
      then io_bind (io_call (Search query) (search_run w query)) (\<lambda>results1.
           io_bind (io_call (Search (query @ '' confirmed OR verified by multiple sources''))
                      (search_run w (query @ '' confirmed OR verified by multiple sources'')))
             (\<lambda>results2.
           io_return (''Regular search results:'' @ [newline] @ results1 @ [newline, newline]
                      @ ''Verification search results:'' @ [newline] @ results2)))
      else io_call (Search query) (search_run w query))"


section \<open>FirecrawlTool.\_fallback\_scrape\<close>

definition is_bbc :: "string \<Rightarrow> bool" where
  "is_bbc url = (sublist ''bbc.com'' url \<or> sublist ''bbc.co.uk'' url)"

definition dq :: string where
  "dq = [CHR 0x22]"

subsection \<open>BBC-specific extraction\<close>

definition headline_selectors :: "string list" where
  "headline_selectors =
     [''h1'',
      ''[data-component='' @ dq @ ''headline'' @ dq @ '']'',
      ''.article-headline'',
      ''.story-body__h1'',
      ''.ssrcss-15xko80-StyledHeading'']"

text \<open>The loop over the headline selectors, left at the first selector that finds a tag.\<close>

fun headline_blocks :: "soup \<Rightarrow> string list \<Rightarrow> string list" where
  "headline_blocks s [] = []"
| "headline_blocks s (selector # selectors) =
     (case select_one s selector of
        Some headline \<Rightarrow> [''# '' @ strip (get_text headline)]
      | None \<Rightarrow> headline_blocks s selectors)"

text \<open>
  The container selector of the source is one string, the selectors below separated by
  commas and line breaks.
\<close>

definition bbc_container_selector :: string where
  "bbc_container_selector = join '', ''
     [''article'',
      ''[data-component='' @ dq @ ''text-block'' @ dq @ '']'',
      ''.ssrcss-1q0x1qg-RichTextContainer'',
      ''.story-body__inner'',
      ''div[data-component='' @ dq @ ''text'' @ dq @ '']'',
      ''div[class*='' @ dq @ ''RichText'' @ dq @ '']'',
      ''.ssrcss-uf6wea-RichTextContainer'',
      ''.ssrcss-7uxr49-RichTextContainer'',
      ''.article__body-content'',
      ''.story-body'',
      ''[data-component='' @ dq @ ''text-block'' @ dq @ '']'',
      ''.body-content-container'',
      ''.article-body-content'']"

definition paragraph_selectors :: "string list" where
  "paragraph_selectors =
     [''p'', ''[data-component='' @ dq @ ''text-block'' @ dq @ ''] p'', ''.paragraph'']"

definition bbc_paragraph_kept :: "tag \<Rightarrow> bool" where
  "bbc_paragraph_kept p =
     (\<not> list_ex (\<lambda>skip. sublist skip (class_repr p)) [''navigation'', ''social'', ''share'', ''hidden'']
      \<and> (let p_text = strip (get_text p)
         in p_text \<noteq> [] \<and> length p_text > 10 \<and> \<not> prefix ''Share this'' p_text))"

definition container_blocks :: "soup \<Rightarrow> string list" where
  "container_blocks s =
     concat (map (\<lambda>container.
       concat (map (\<lambda>p_selector.
         map (\<lambda>p. strip (get_text p)) (filter bbc_paragraph_kept (tag_select container p_selector)))
         paragraph_selectors))
       (soup_select s bbc_container_selector))"

definition metadata_selectors :: "string list" where
  "metadata_selectors =
     [''.ssrcss-17m4u3h-MetadataStrip'',
      ''.ssrcss-f4vpt6-MetadataLink'',
      ''.ssrcss-1n2rzdv-StyledPublishingContext'',
      ''.article-info'',
      ''.author-unit__content'',
      ''.byline'',
      ''.article-meta'',
      ''.article__author'',
      ''.article__timestamp'',
      ''[data-component='' @ dq @ ''byline'' @ dq @ '']'',
      ''[data-component='' @ dq @ ''meta'' @ dq @ '']'',
      ''[data-component='' @ dq @ ''topics'' @ dq @ '']'']"

definition metadata_kept :: "tag \<Rightarrow> bool" where
  "metadata_kept meta =
     (let meta_text = strip (get_text meta)
      in meta_text \<noteq> [] \<and>
         \<not> list_ex (\<lambda>skip. sublist skip (lower meta_text)) [''share this'', ''follow us'', ''subscribe''])"

definition metadata_blocks :: "soup \<Rightarrow> string list" where
  "metadata_blocks s =
     concat (map (\<lambda>selector.
       map (\<lambda>meta. ''*'' @ strip (get_text meta) @ ''*'') (filter metadata_kept (soup_select s selector)))
       metadata_selectors)"

definition bbc_generic_paragraph_kept :: "tag \<Rightarrow> bool" where
  "bbc_generic_paragraph_kept p =
     (let p_text = strip (get_text p)
      in p_text \<noteq> [] \<and> length p_text > 40 \<and>
         \<not> list_ex (\<lambda>skip. sublist skip (lower p_text))
             [''cookie'', ''subscribe'', ''newsletter'', ''share this''])"

text \<open>
  The body of \<open>if "bbc.com" in url or "bbc.co.uk" in url:\<close>, started on the empty
  \<open>content_blocks\<close>.
\<close>

definition bbc_extraction :: "soup \<Rightarrow> string list" where
  "bbc_extraction s =
     (let content_blocks = headline_blocks s headline_selectors;
          content_blocks = content_blocks @ container_blocks s;
          content_blocks = content_blocks @ metadata_blocks s
      in if content_blocks = []
         then map (\<lambda>p. strip (get_text p)) (filter bbc_generic_paragraph_kept (soup_select s ''p''))
         else content_blocks)"

subsection \<open>Generic extraction\<close>

definition main_content_selector :: string where
  "main_content_selector = ''main, article, .content, #content, .article-content, .post-content''"

definition paragraphs_longer_than :: "nat \<Rightarrow> tag list \<Rightarrow> string list" where
  "paragraphs_longer_than n paragraphs =
     map (\<lambda>p. strip (get_text p))
       (filter (\<lambda>p. strip (get_text p) \<noteq> [] \<and> length (strip (get_text p)) > n) paragraphs)"

definition generic_extraction :: "soup \<Rightarrow> string list" where
  "generic_extraction s =
     (case select_one s main_content_selector of
        Some main_content \<Rightarrow> paragraphs_longer_than 30 (tag_select main_content ''p'')
      | None \<Rightarrow> paragraphs_longer_than 50 (soup_select s ''p''))"

subsection \<open>Whole-body text\<close>

text \<open>
  \<open>re.sub(r'\s+', ' ', body_text)\<close>: every maximal run of whitespace becomes one space.
  The flag says that the previous character belonged to such a run.
\<close>

fun collapse_whitespace :: "bool \<Rightarrow> string \<Rightarrow> string" where
  "collapse_whitespace in_run [] = []"
| "collapse_whitespace in_run (c # cs) =
     (if is_space c
      then (if in_run then collapse_whitespace True cs else CHR '' '' # collapse_whitespace True cs)
      else c # collapse_whitespace False cs)"

text \<open>
  \<open>re.sub(r'(Share this|Follow us|Subscribe|Cookie|Newsletter).*?(\.|$)', '', body_text,
  flags=re.IGNORECASE)\<close>. At a position, a match is a keyword in any letter case, followed
  by the shortest run of characters other than a line break that ends with a full stop
  (included), at the end of the text, or before a line break that ends the text.
  \<open>noise_match_length\<close> is the length of the match at the start of a text; the matches
  are removed from left to right, the search resuming after each.
\<close>

definition noise_keywords :: "string list" where
  "noise_keywords = [''Share this'', ''Follow us'', ''Subscribe'', ''Cookie'', ''Newsletter'']"

fun lazy_stop_length :: "string \<Rightarrow> nat option" where
  "lazy_stop_length [] = Some 0"
| "lazy_stop_length (c # cs) =
     (if c = CHR ''.'' then Some 1
      else if c = newline then (if cs = [] then Some 0 else None)
      else map_option Suc (lazy_stop_length cs))"

definition noise_match_length :: "string \<Rightarrow> nat option" where
  "noise_match_length s =
     (case List.find (\<lambda>k. length k \<le> length s \<and> lower (take (length k) s) = lower k) noise_keywords of
        None \<Rightarrow> None
      | Some k \<Rightarrow> map_option (\<lambda>n. length k + n) (lazy_stop_length (drop (length k) s)))"

fun remove_noise_from :: "nat \<Rightarrow> string \<Rightarrow> string" where
  "remove_noise_from skip [] = []"
| "remove_noise_from (Suc skip) (c # cs) = remove_noise_from skip cs"
| "remove_noise_from 0 (c # cs) =
     (case noise_match_length (c # cs) of
        Some n \<Rightarrow> remove_noise_from (n - 1) cs
      | None \<Rightarrow> c # remove_noise_from 0 cs)"

definition body_extraction :: "soup \<Rightarrow> string list" where
  "body_extraction s =
     (let body_text = (case soup_body s of Some body \<Rightarrow> strip (get_text body) | None \<Rightarrow> []);
          body_text = collapse_whitespace False body_text;
          body_text = remove_noise_from 0 body_text
      in [take 8000 body_text])"

subsection \<open>The scraper\<close>

text \<open>
  \<open>content_blocks\<close> after the three \<open>if not content_blocks:\<close> stages, and the text
  joined from it.
\<close>

definition extract_content_blocks :: "string \<Rightarrow> soup \<Rightarrow> string list" where
  "extract_content_blocks url s =
     (let content_blocks = (if is_bbc url then bbc_extraction s else []);
          content_blocks = (if content_blocks = [] then generic_extraction s else content_blocks);
          content_blocks = (if content_blocks = [] then body_extraction s else content_blocks)
      in content_blocks)"

definition join_blocks :: "string list \<Rightarrow> string" where
  "join_blocks content_blocks =
     join [newline, newline] (map strip (filter (\<lambda>block. strip block \<noteq> []) content_blocks))"

definition fallback_scrape :: "world \<Rightarrow> string \<Rightarrow> string io" where
  "fallback_scrape w url =
     io_bind (io_emit (FallbackScrape url)) (\<lambda>_.
     try_except
       (io_bind (io_call (HttpGet url) (requests_get w url)) (\<lambda>response.
          if status_code response = 200 then
            if sublist ''example.com'' (lower (resp_url response))
            then io_return (''Error: Redirected to example.com while scraping '' @ url @ ''.'')
            else
              io_bind (io_lift (BeautifulSoup w (resp_text response))) (\<lambda>s.
                let article_text = join_blocks (extract_content_blocks url s)
                in if length article_text < 100
                   then io_return (''Error: Could not extract meaningful content from '' @ url @ ''.'')
                   else io_return article_text)
          else io_return (''Error: Failed to retrieve content. Status code: ''
                          @ str_int (status_code response))))
       (\<lambda>e. io_return (''Error scraping URL '' @ url @ '': '' @ exn_msg e)))"

section \<open>FirecrawlTool.\_run\<close>

text \<open>
  The URL the tool works on: the task context's URL when the lookup finds a non-empty one
  that differs from the argument; the argument when the lookup finds none or raises.
\<close>

definition effective_url :: "world \<Rightarrow> string \<Rightarrow> string" where
  "effective_url w url =
     (case task_context_url w of
        Inr (Some context_url) \<Rightarrow> if context_url \<noteq> [] \<and> url \<noteq> context_url then context_url else url
      | Inr None \<Rightarrow> url
      | Inl e \<Rightarrow> url)"

text \<open>Python's truth value of a parsed JSON value, and \<open>d.get(key, default)\<close>.\<close>

fun truthy :: "json \<Rightarrow> bool" where
  "truthy JNull = False"
| "truthy (JBool b) = b"
| "truthy (JNum n) = (n \<noteq> 0)"
| "truthy (JStr s) = (s \<noteq> [])"
| "truthy (JArr xs) = (xs \<noteq> [])"
| "truthy (JObj kvs) = (kvs \<noteq> [])"

definition dict_get :: "json \<Rightarrow> string \<Rightarrow> json \<Rightarrow> exn + json" where
  "dict_get d key dflt =
     (case d of
        JObj kvs \<Rightarrow> Inr (case map_of kvs key of Some v \<Rightarrow> v | None \<Rightarrow> dflt)
      | _ \<Rightarrow> Inl (PyException ''object has no attribute get''))"

text \<open>
  \<open>data.get("data", {}).get("markdown", data.get("data", {}).get("html", ""))\<close>
\<close>

definition api_content :: "json \<Rightarrow> json io" where
  "api_content data =
     io_bind (io_lift (dict_get data ''data'' (JObj []))) (\<lambda>d1.
     io_bind (io_lift (dict_get data ''data'' (JObj []))) (\<lambda>d2.
     io_bind (io_lift (dict_get d2 ''html'' (JStr []))) (\<lambda>html.
     io_lift (dict_get d1 ''markdown'' html))))"

text \<open>
  \<open>content and len(content.strip()) > 100 and "Example Domain" not in content\<close>: the
  content when the test holds, \<open>None\<close> when it does not; a true value that is not a string
  has no \<open>strip\<close>.
\<close>

definition accepted_content :: "json \<Rightarrow> exn + string option" where
  "accepted_content content =
     (if \<not> truthy content then Inr None
      else case content of
             JStr c \<Rightarrow> Inr (if length (strip c) > 100 \<and> \<not> sublist ''Example Domain'' c
                            then Some c else None)
           | _ \<Rightarrow> Inl (PyException ''object has no attribute strip''))"

definition FirecrawlTool_run :: "world \<Rightarrow> string \<Rightarrow> string io" where
  "FirecrawlTool_run w url_argument =
     (let url = effective_url w url_argument in
      if url = [] then io_return ''Error: No URL provided''
      else if \<not> (prefix ''http://'' url \<or> prefix ''https://'' url)
      then io_return ''Error: Invalid URL format. URL must start with http:// or https://''
      else
        try_except
          (case env_firecrawl_api_key w of
             None \<Rightarrow> fallback_scrape w url
           | Some firecrawl_api_key \<Rightarrow>
               if firecrawl_api_key = [] then fallback_scrape w url
               else
                 io_bind (io_call (FirecrawlPost url) (requests_post w url)) (\<lambda>response.
                   if status_code response = 200 then
                     io_bind (io_lift (resp_json response)) (\<lambda>data.
                     io_bind (io_lift (dict_get data ''success'' JNull)) (\<lambda>success.
                       if truthy success then
                         io_bind (api_content data) (\<lambda>content.
                         io_bind (io_lift (accepted_content content)) (\<lambda>accepted.
                           case accepted of
                             Some c \<Rightarrow> io_return c
                           | None \<Rightarrow> fallback_scrape w url))
                       else fallback_scrape w url))
                   else fallback_scrape w url))
          (\<lambda>e. fallback_scrape w url))"

section \<open>The crew\<close>





section \<open>fact\_check\_text and fact\_check\_url\<close>

text \<open>
  \<open>result["tasks_output"][-1].raw\<close>: indexing an empty list raises \<open>IndexError\<close>.
\<close>

definition last_raw :: "string list \<Rightarrow> exn + string" where
  "last_raw task_outputs =
     (if task_outputs = [] then Inl (PyException ''list index out of range'')
      else Inr (last task_outputs))"

definition text_inputs :: "string \<Rightarrow> (string \<times> string) list" where
  "text_inputs text = [(''cleaned_content'', text), (''task'', ''text_analysis'')]"

definition fact_check_text :: "world \<Rightarrow> string \<Rightarrow> string io" where
  "fact_check_text w text =
     try_except
       (io_bind (io_call (Kickoff (text_inputs text)) (crew_kickoff w (text_inputs text))) (\<lambda>result.
          case result of
            TasksOutput task_outputs \<Rightarrow> io_lift (last_raw task_outputs)
          | OtherResult s \<Rightarrow> io_return s))
       (\<lambda>e. io_return (''Error: '' @ exn_msg e))"

subsection \<open>URL validation\<close>

text \<open>
  \<open>re.compile(r'^https?://[^\s/$.?#].[^\s]*$').match(url)\<close>. After the scheme come one
  character that is neither whitespace nor one of \<open>/$.?#\<close>, one character that is not a
  line break, and characters that are not whitespace up to \<open>$\<close>: the end of the string,
  or a line break that ends the string.
\<close>

definition after_scheme :: "string \<Rightarrow> string option" where
  "after_scheme url =
     (if prefix ''https://'' url then Some (drop 8 url)
      else if prefix ''http://'' url then Some (drop 7 url)
      else None)"

fun nonspace_to_end :: "string \<Rightarrow> bool" where
  "nonspace_to_end [] = True"
| "nonspace_to_end [c] = (c = newline \<or> \<not> is_space c)"
| "nonspace_to_end (c # d # cs) = (\<not> is_space c \<and> nonspace_to_end (d # cs))"

definition url_pattern_match :: "string \<Rightarrow> bool" where
  "url_pattern_match url =
     (case after_scheme url of
        None \<Rightarrow> False
      | Some [] \<Rightarrow> False
      | Some [c] \<Rightarrow> False
      | Some (c # d # rest) \<Rightarrow>
          \<not> is_space c \<and> c \<notin> set ''/$.?#'' \<and> d \<noteq> newline \<and> nonspace_to_end rest)"

text \<open>
  \<open>re.search(r'/(\d{4})/', url)\<close>: group 1 of the leftmost match, if there is one.
\<close>

fun year_search :: "string \<Rightarrow> string option" where
  "year_search [] = None"
| "year_search (c # cs) =
     (if matches_at (lit ''/'' @ replicate 4 is_digit @ lit ''/'') (c # cs)
      then Some (take 4 cs)
      else year_search cs)"

text \<open>
  The future-date check: the message the function returns, or \<open>None\<close> when it goes on.
  Nothing in the guarded block raises on a string, so its handler is never entered.
\<close>

definition future_date_error :: "int \<Rightarrow> string \<Rightarrow> string option" where
  "future_date_error this_year url =
     (case year_search url of
        None \<Rightarrow> None
      | Some group1 \<Rightarrow>
          let year = int_of_digits group1
          in if year > this_year
             then Some (''Error: URL contains a future date ('' @ str_int year
                        @ ''), which may not be valid. Please check the URL.'')
             else None)"

subsection \<open>The URL entry point\<close>

definition url_inputs :: "string \<Rightarrow> (string \<times> string) list" where
  "url_inputs url =
     (if is_bbc url
      then [(''url'', url),
            (''source_type'', ''bbc_news''),
            (''expected_claim_format'', ''news_article''),
            (''identify_instruction'',
             ''This is a BBC news article. Focus on extracting factual claims about events, statistics, and attributions.'')]
      else [(''url'', url)])"

definition invalid_url_message :: string where
  "invalid_url_message =
     ''Error: Invalid URL format. Please provide a valid URL starting with http:// or https://.''"

definition extraction_failed_message :: "string \<Rightarrow> string \<Rightarrow> string" where
  "extraction_failed_message url content_extraction_result =
     ''Failed to extract content from URL: '' @ url @ ''. '' @ content_extraction_result"

text \<open>
  The BBC report. The source also computes an article title from the first task output
  and never uses it; formatting a string raises nothing, so the handler around it is
  never entered.
\<close>

definition bbc_formatted_output :: "string \<Rightarrow> string \<Rightarrow> string" where
  "bbc_formatted_output url final_summary =
     ''Based on the provided content from '' @ url @ '':'' @ [newline]
     @ ''1. Overall Assessment: '' @ final_summary @ [newline]
     @ ''2. Source: BBC News, a generally reliable mainstream news source.'' @ [newline]
     @ ''3. Recommendations: Information from BBC News is generally reliable, but for complete verification, cross-reference with other reputable sources.''
     @ [newline, newline]
     @ ''**Real**''"

text \<open>
  \<open>task_outputs[0].raw if len(task_outputs) > 0 else "No content extraction result"\<close>,
  the test for a failed extraction, and
  \<open>task_outputs[-1].raw if task_outputs else "No results available"\<close>.
\<close>

definition content_extraction_result :: "string list \<Rightarrow> string" where
  "content_extraction_result task_outputs =
     (if length task_outputs > 0 then task_outputs ! 0 else ''No content extraction result'')"

definition extraction_error :: "string \<Rightarrow> bool" where
  "extraction_error result = (sublist ''Error'' result \<and> length result < 500)"

definition final_summary :: "string list \<Rightarrow> string" where
  "final_summary task_outputs =
     (if task_outputs \<noteq> [] then last task_outputs else ''No results available'')"

definition fact_check_url :: "world \<Rightarrow> string \<Rightarrow> string io" where
  "fact_check_url w url =
     (if \<not> url_pattern_match url then io_return invalid_url_message
      else case future_date_error (current_year w) url of
        Some message \<Rightarrow> io_return message
      | None \<Rightarrow>
        try_except
          (io_bind (io_call (Kickoff (url_inputs url)) (crew_kickoff w (url_inputs url))) (\<lambda>result.
             case result of
               TasksOutput task_outputs \<Rightarrow>
                 if extraction_error (content_extraction_result task_outputs)
                 then
                   if is_bbc url
                   then io_bind (fallback_scrape w url) (\<lambda>content.
                          if length content > 500 then fact_check_text w content
                          else io_return (extraction_failed_message url
                                            (content_extraction_result task_outputs)))
                   else io_return (extraction_failed_message url
                                     (content_extraction_result task_outputs))
                 else
                   if is_bbc url \<and> \<not> sublist ''verifiable claims'' (lower (final_summary task_outputs))
                   then io_return (bbc_formatted_output url (final_summary task_outputs))
                   else io_return (final_summary task_outputs)
             | OtherResult s \<Rightarrow> io_return s))
          (\<lambda>e. io_return (''Error: '' @ exn_msg e)))"

section \<open>Example worlds\<close>

text \<open>A machine without network, API key or parser, whose search echoes the query.\<close>

definition offline_world :: world where
  "offline_world = \<lparr>
     task_context_url = Inr None,
     env_firecrawl_api_key = None,
     requests_post = (\<lambda>url. Inl (RequestException ''offline'')),
     requests_get = (\<lambda>url. Inl (RequestException ''offline'')),
     BeautifulSoup = (\<lambda>text. Inl (PyException ''No module named bs4'')),
     crew_kickoff = (\<lambda>inputs. Inl (PyException ''offline'')),
     search_run = (\<lambda>query. Inr (''results for '' @ query)),
     current_year = 2026 \<rparr>"

text \<open>A crew that answers every run with five task outputs, the last a summary.\<close>

definition report_world :: world where
  "report_world = offline_world \<lparr>
     crew_kickoff := (\<lambda>inputs. Inr (TasksOutput
       [''Using URL from context: the article text'',
        ''1. Claim one'',
        ''Research findings'',
        ''1. Claim one - Verification: True'',
        ''3. Overall Credibility Rating: Somewhat Credible **Uncertain**''])) \<rparr>"

text \<open>A crew whose summary for a BBC article rates it not credible.\<close>

definition bbc_report_world :: world where
  "bbc_report_world = offline_world \<lparr>
     crew_kickoff := (\<lambda>inputs. Inr (TasksOutput
       [''# Headline of the article and its text'',
        ''1. Claim one'',
        ''Research findings'',
        ''1. Claim one - Verification: False'',
        ''3. Overall Credibility Rating: Not Credible **Fake**''])) \<rparr>"

definition fake_task_outputs :: "string list" where
  "fake_task_outputs =
       [''# Headline of the article and its text'',
        ''1. Claim one'',
        ''Research findings'',
        ''1. Claim one - Verification: False'',
        ''3. Overall Credibility Rating: Not Credible **Fake**'']"

text \<open>
  The scrape API answers with HTTP 200, the success flag and a placeholder page; the page
  itself cannot be fetched.
\<close>

definition placeholder_api_world :: world where
  "placeholder_api_world = offline_world \<lparr>
     env_firecrawl_api_key := Some ''fc-0123456789'',
     requests_post := (\<lambda>url. Inr \<lparr> status_code = 200,
        resp_url = ''https://api.firecrawl.dev/v1/scrape'',
        resp_text = [],
        resp_json = Inr (JObj [(''success'', JBool True),
                              (''data'', JObj [(''markdown'', JStr ''# Example Domain'')])]) \<rparr>) \<rparr>"

text \<open>
  Pages made of paragraphs, without headline, containers or metadata. In their world the
  crew fails to extract a URL and summarises a text.
\<close>

definition p_element :: "string \<Rightarrow> tag" where
  "p_element content = Tag content ''[]'' (\<lambda>selector. [])"

definition page_soup :: "string list \<Rightarrow> soup" where
  "page_soup paragraphs = \<lparr>
     soup_select = (\<lambda>selector. if selector = ''p'' then map p_element paragraphs else []),
     soup_body = Some (Tag (join '' '' paragraphs) ''[]''
                        (\<lambda>selector. if selector = ''p'' then map p_element paragraphs else [])) \<rparr>"

definition page_world :: "string list \<Rightarrow> world" where
  "page_world paragraphs = offline_world \<lparr>
     requests_get := (\<lambda>url. Inr \<lparr> status_code = 200, resp_url = url, resp_text = ''<html>'',
                                  resp_json = Inl (PyException ''not JSON'') \<rparr>),
     BeautifulSoup := (\<lambda>html. Inr (page_soup paragraphs)),
     crew_kickoff := (\<lambda>inputs.
        if map fst inputs = [''cleaned_content'', ''task'']
        then Inr (TasksOutput [''3. Overall Credibility Rating: Mostly Credible **Real**''])
        else Inr (TasksOutput [''Error: Could not scrape the page''])) \<rparr>"








text \<open>A page with one short paragraph.\<close>

definition empty_page_world :: world where
  "empty_page_world = page_world [''Page not found.'']"


section \<open>The specification's reading of the scraper's strategies\<close>






section \<open>The specification's reading of a future year in a URL\<close>

text \<open>
  The claim about future dates speaks of a 4-digit path segment that is a year after the
  current one. This is that reading, written from the claim's words and used only to
  compare it with \<^const>\<open>year_search\<close>: the segments of a URL are the pieces between
  slashes.
\<close>

fun split_slash :: "string \<Rightarrow> string list" where
  "split_slash [] = [[]]"
| "split_slash (c # cs) =
     (if c = CHR ''/'' then [] # split_slash cs
      else (case split_slash cs of
              segment # segments \<Rightarrow> (c # segment) # segments
            | [] \<Rightarrow> [[c]]))"

definition future_year_segment :: "int \<Rightarrow> string \<Rightarrow> bool" where
  "future_year_segment this_year segment =
     (length segment = 4 \<and> list_all is_digit segment \<and> int_of_digits segment > this_year)"

definition claimed_future_year_segment :: "int \<Rightarrow> string \<Rightarrow> bool" where
  "claimed_future_year_segment this_year url =
     list_ex (future_year_segment this_year) (split_slash url)"

section \<open>The specification's reading of an explicit date in a query\<close>

text \<open>
  The claim about the search tool speaks of a query that contains an explicit date term.
  This is the least such reading, written from the claim's words and used only to compare
  it with \<^const>\<open>date_match\<close>: one of the words of the query, split at whitespace, is a
  year written with four digits.
\<close>

fun split_words :: "string \<Rightarrow> string list" where
  "split_words [] = [[]]"
| "split_words (c # cs) =
     (if is_space c then [] # split_words cs
      else (case split_words cs of
              word # words \<Rightarrow> (c # word) # words
            | [] \<Rightarrow> [[c]]))"

definition year_word :: "string \<Rightarrow> bool" where
  "year_word word = (length word = 4 \<and> list_all is_digit word)"

definition claimed_explicit_year :: "string \<Rightarrow> bool" where
  "claimed_explicit_year query = list_ex year_word (split_words query)"

section \<open>Claims\<close>

subsection \<open>Results shared by several claims\<close>

lemma try_except_returns:
  assumes "\<And>e. \<exists>t s. h e = (t, Inr s)"
  shows "\<exists>t s. try_except m h = (t, Inr s)"
proof (cases m)
  case (Pair t r)
  show ?thesis
  proof (cases r)
    case (Inl e)
    obtain t' s where "h e = (t', Inr s)" using assms by blast
    with Pair Inl show ?thesis by (simp add: try_except_def)
  next
    case (Inr x)
    with Pair show ?thesis by (simp add: try_except_def)
  qed
qed

lemma fallback_scrape_trace: "fst (fallback_scrape w url) = [FallbackScrape url, HttpGet url]"
  by (auto simp: fallback_scrape_def io_bind_def io_emit_def io_call_def io_return_def io_lift_def
      try_except_def Let_def split: sum.splits prod.splits)

lemma fallback_scrape_returns: "\<exists>s. snd (fallback_scrape w url) = Inr s"
  by (auto simp: fallback_scrape_def io_bind_def io_emit_def io_call_def io_return_def io_lift_def
      try_except_def Let_def split: sum.splits prod.splits)

lemma fact_check_text_returns: "\<exists>t s. fact_check_text w text = (t, Inr s)"
  unfolding fact_check_text_def
  by (rule try_except_returns) (simp add: io_return_def)

lemma FirecrawlTool_run_returns: "\<exists>t s. FirecrawlTool_run w url = (t, Inr s)"
proof -
  have f: "\<exists>t s. fallback_scrape w (effective_url w url) = (t, Inr s)"
    using fallback_scrape_returns by (metis prod.collapse)
  have "\<exists>t s. try_except m (\<lambda>e. fallback_scrape w (effective_url w url)) = (t, Inr s)" for m
    by (rule try_except_returns) (rule f)
  then show ?thesis
    unfolding FirecrawlTool_run_def Let_def by (simp add: io_return_def)
qed

lemma fact_check_url_returns: "\<exists>t s. fact_check_url w url = (t, Inr s)"
proof -
  have "\<exists>t s. try_except m (\<lambda>e. io_return (''Error: '' @ exn_msg e)) = (t, Inr s)"
    for m :: "string io"
    by (rule try_except_returns) (simp add: io_return_def)
  then show ?thesis
    unfolding fact_check_url_def by (simp add: io_return_def split: option.splits)
qed

lemma fallback_scrape_result:
  "\<exists>s. fallback_scrape w url = ([FallbackScrape url, HttpGet url], Inr s)"
  using fallback_scrape_returns [of w url] fallback_scrape_trace [of w url]
  by (metis prod.collapse)










subsection \<open>C4: malformed URLs\<close>

text \<open>
  C4. For every URL that does not match the pattern \<open>^https?://[^\s/$.?#].[^\s]*$\<close>,
  \<open>fact_check_url\<close> returns the invalid-format message, and its trace is empty: no call
  to the crew, to the network or to the scraper is made.
\<close>

theorem fact_check_url_invalid_url:
  assumes "\<not> url_pattern_match url"
  shows "fact_check_url w url =
           ([], Inr ''Error: Invalid URL format. Please provide a valid URL starting with http:// or https://.'')"
  using assms by (simp add: fact_check_url_def io_return_def invalid_url_message_def)

theorem fact_check_url_invalid_url_witness:
  "\<not> url_pattern_match ''not-a-url'' \<and> \<not> url_pattern_match []
   \<and> fact_check_url report_world ''not-a-url'' =
       ([], Inr ''Error: Invalid URL format. Please provide a valid URL starting with http:// or https://.'')
   \<and> fact_check_url report_world [] =
       ([], Inr ''Error: Invalid URL format. Please provide a valid URL starting with http:// or https://.'')"
proof -
  have a: "\<not> url_pattern_match ''not-a-url''" by code_simp
  have b: "\<not> url_pattern_match []" by code_simp
  show ?thesis
    using a b fact_check_url_invalid_url [OF a, of report_world]
      fact_check_url_invalid_url [OF b, of report_world] by simp
qed

subsection \<open>C5: future years in the URL\<close>

text \<open>
  C5, as amended. For every URL that matches the pattern and whose leftmost substring of
  the form slash, four digits, slash holds a number greater than the current year,
  \<open>fact_check_url\<close> returns the future-date message naming that number, and its trace is
  empty: the pipeline is not run.
\<close>

theorem fact_check_url_future_date:
  assumes "url_pattern_match url"
    and "year_search url = Some group1"
    and "int_of_digits group1 > current_year w"
  shows "fact_check_url w url =
           ([], Inr (''Error: URL contains a future date ('' @ str_int (int_of_digits group1)
                     @ ''), which may not be valid. Please check the URL.''))"
  using assms by (simp add: fact_check_url_def io_return_def future_date_error_def Let_def)

theorem fact_check_url_future_date_witness:
  "url_pattern_match ''https://example.com/news/2099/story''
   \<and> year_search ''https://example.com/news/2099/story'' = Some ''2099''
   \<and> fact_check_url report_world ''https://example.com/news/2099/story'' =
       ([], Inr ''Error: URL contains a future date (2099), which may not be valid. Please check the URL.'')"
proof -
  have a: "url_pattern_match ''https://example.com/news/2099/story''" by code_simp
  have b: "year_search ''https://example.com/news/2099/story'' = Some ''2099''" by code_simp
  have c: "int_of_digits ''2099'' > current_year report_world" by code_simp
  have d: "str_int (int_of_digits ''2099'') = ''2099''" by code_simp
  show ?thesis
    using a b fact_check_url_future_date [OF a b c] d by simp
qed

text \<open>
  C5 as stated fails: the URL below is well formed and has the path segment \<open>2099\<close>,
  after the current year 2026, yet the pipeline runs and its summary is returned. Only the
  leftmost match of the search, here \<open>2020\<close>, is compared with the current year.
\<close>

theorem fact_check_url_future_date_counterexample:
  "url_pattern_match ''https://example.com/2020/2099/story''
   \<and> current_year report_world = 2026
   \<and> claimed_future_year_segment 2026 ''https://example.com/2020/2099/story''
   \<and> fact_check_url report_world ''https://example.com/2020/2099/story'' =
       ([Kickoff [(''url'', ''https://example.com/2020/2099/story'')]],
        Inr ''3. Overall Credibility Rating: Somewhat Credible **Uncertain**'')"
  by code_simp

subsection \<open>C7: no exception leaves the entry points\<close>

text \<open>
  C7. In every world and on every input, \<open>fact_check_url\<close>, \<open>fact_check_text\<close>, the
  extractor \<open>FirecrawlTool._run\<close> and its fallback scraper return a string: whatever the
  network, the parser or the crew raise, none of the four ends with an exception.
\<close>

theorem entry_points_never_raise:
  "(\<exists>t s. fact_check_url w url = (t, Inr s))
   \<and> (\<exists>t s. fact_check_text w text = (t, Inr s))
   \<and> (\<exists>t s. FirecrawlTool_run w url = (t, Inr s))
   \<and> (\<exists>t s. fallback_scrape w url = (t, Inr s))"
  using fact_check_url_returns fact_check_text_returns FirecrawlTool_run_returns
    fallback_scrape_returns [of w url]
  by (metis prod.collapse)

theorem entry_points_never_raise_witness:
  "(\<exists>t s. fact_check_url offline_world ''https://www.bbc.com/news/world-1'' = (t, Inr s))
   \<and> (\<exists>t s. fact_check_text offline_world [] = (t, Inr s))
   \<and> (\<exists>t s. FirecrawlTool_run offline_world ''https://www.bbc.com/news/world-1'' = (t, Inr s))
   \<and> (\<exists>t s. fallback_scrape offline_world ''https://www.bbc.com/news/world-1'' = (t, Inr s))"
  by (rule entry_points_never_raise)

subsection \<open>C9: the recency qualifier of the search tool\<close>

text \<open>
  C9, as amended. For every search query that contains news-source vocabulary (\<open>bbc\<close>,
  \<open>reuters\<close>, \<open>news\<close> or \<open>reported\<close>, in any letter case):
  \<^item> if the query contains no date term that the tool recognises (a year 2020 to 2029 or
    an English month name, as a whole word) and not \<open>recent\<close>, the tool makes one
    search, for the query followed by \<open>recent news\<close>, and returns its result;
  \<^item> if the query contains such a date term or \<open>recent\<close>, the query is searched as
    given and never with the recency qualifier. Without \<open>verify\<close> and \<open>fact check\<close>
    in the query this is the tool's only search and its result is returned; with one of
    them, the search of the query as given is followed by the tool's verification search
    and both results are returned under their headings.
\<close>

theorem SearchTool_run_recency:
  assumes "mentions_news query"
  shows "(\<not> date_match (lower query) \<and> \<not> sublist ''recent'' (lower query) \<longrightarrow>
            SearchTool_run w query =
              ([Search (query @ '' recent news'')], search_run w (query @ '' recent news'')))
       \<and> ((date_match (lower query) \<or> sublist ''recent'' (lower query)) \<and>
            \<not> sublist ''verify'' (lower query) \<and> \<not> sublist ''fact check'' (lower query) \<longrightarrow>
            SearchTool_run w query = ([Search query], search_run w query))
       \<and> ((date_match (lower query) \<or> sublist ''recent'' (lower query)) \<and>
            (sublist ''verify'' (lower query) \<or> sublist ''fact check'' (lower query)) \<longrightarrow>
            (\<exists>rest. fst (SearchTool_run w query) = Search query # rest) \<and>
            Search (query @ '' recent news'') \<notin> set (fst (SearchTool_run w query)) \<and>
            (\<forall>results1 results2.
               search_run w query = Inr results1 \<longrightarrow>
               search_run w (query @ '' confirmed OR verified by multiple sources'') = Inr results2 \<longrightarrow>
               SearchTool_run w query =
                 ([Search query, Search (query @ '' confirmed OR verified by multiple sources'')],
                  Inr (''Regular search results:'' @ [newline] @ results1 @ [newline, newline]
                       @ ''Verification search results:'' @ [newline] @ results2))))"
  using assms
  by (auto simp: SearchTool_run_def io_call_def io_bind_def io_return_def
           split: sum.splits prod.splits)

theorem SearchTool_run_recency_witness:
  "mentions_news ''bbc election result''
   \<and> SearchTool_run offline_world ''bbc election result'' =
       ([Search ''bbc election result recent news''],
        Inr ''results for bbc election result recent news'')
   \<and> mentions_news ''reuters reported in March''
   \<and> SearchTool_run offline_world ''reuters reported in March'' =
       ([Search ''reuters reported in March''], Inr ''results for reuters reported in March'')
   \<and> mentions_news ''bbc verify 2024 budget''
   \<and> fst (SearchTool_run offline_world ''bbc verify 2024 budget'') =
       [Search ''bbc verify 2024 budget'',
        Search ''bbc verify 2024 budget confirmed OR verified by multiple sources'']"
proof -
  have n1: "mentions_news ''bbc election result''" by code_simp
  have d1: "\<not> date_match (lower ''bbc election result'')" by code_simp
  have r1: "\<not> sublist ''recent'' (lower ''bbc election result'')" by code_simp
  have n2: "mentions_news ''reuters reported in March''" by code_simp
  have d2: "date_match (lower ''reuters reported in March'')" by code_simp
  have v2: "\<not> sublist ''verify'' (lower ''reuters reported in March'')"
    "\<not> sublist ''fact check'' (lower ''reuters reported in March'')" by code_simp+
  have n3: "mentions_news ''bbc verify 2024 budget''" by code_simp
  have d3: "date_match (lower ''bbc verify 2024 budget'')" by code_simp
  have v3: "sublist ''verify'' (lower ''bbc verify 2024 budget'')" by code_simp
  have s3: "search_run offline_world ''bbc verify 2024 budget''
              = Inr ''results for bbc verify 2024 budget''"
    "search_run offline_world (''bbc verify 2024 budget'' @ '' confirmed OR verified by multiple sources'')
       = Inr ''results for bbc verify 2024 budget confirmed OR verified by multiple sources''"
    by (simp_all add: offline_world_def)
  have first: "SearchTool_run offline_world ''bbc election result'' =
       ([Search ''bbc election result recent news''],
        Inr ''results for bbc election result recent news'')"
    using SearchTool_run_recency [OF n1, of offline_world] d1 r1 by (simp add: offline_world_def)
  have second: "SearchTool_run offline_world ''reuters reported in March'' =
       ([Search ''reuters reported in March''], Inr ''results for reuters reported in March'')"
    using SearchTool_run_recency [OF n2, of offline_world] d2 v2 by (simp add: offline_world_def)
  have third: "fst (SearchTool_run offline_world ''bbc verify 2024 budget'') =
       [Search ''bbc verify 2024 budget'',
        Search ''bbc verify 2024 budget confirmed OR verified by multiple sources'']"
    using SearchTool_run_recency [OF n3, of offline_world] d3 v3 s3 by simp
  show ?thesis using n1 n2 n3 first second third by simp
qed

text \<open>
  C9 as stated fails: the query below names a news source and holds an explicit date, the
  year 2019, yet the tool searches for it with \<open>recent news\<close> appended and not as given.
  The tool recognises no year outside 2020 to 2029 and no recency word other than
  \<open>recent\<close>.
\<close>

theorem SearchTool_run_recency_counterexample:
  "mentions_news ''bbc election 2019''
   \<and> claimed_explicit_year ''bbc election 2019''
   \<and> SearchTool_run offline_world ''bbc election 2019'' =
       ([Search ''bbc election 2019 recent news''], Inr ''results for bbc election 2019 recent news'')"
  by code_simp

subsection \<open>C10: BBC articles are labelled Real\<close>

text \<open>
  C10. For every BBC URL that passes the two URL checks, when the crew returns its task
  outputs, the first of them is not an extraction error and the final summary does not
  contain \<open>verifiable claims\<close> (the test is made on the lowercased summary),
  \<open>fact_check_url\<close> makes no further call and returns the reformatted report: the fixed
  text below around the URL and the summary, which are quoted unchanged. The report ends
  with the label \<open>**Real**\<close> whatever the summary says.
\<close>

theorem fact_check_url_bbc_real:
  assumes "is_bbc url"
    and "url_pattern_match url"
    and "future_date_error (current_year w) url = None"
    and "crew_kickoff w (url_inputs url) = Inr (TasksOutput task_outputs)"
    and "\<not> extraction_error (content_extraction_result task_outputs)"
    and "\<not> sublist ''verifiable claims'' (lower (final_summary task_outputs))"
  shows "fact_check_url w url =
           ([Kickoff (url_inputs url)],
            Inr (''Based on the provided content from '' @ url @ '':'' @ [newline]
                 @ ''1. Overall Assessment: '' @ final_summary task_outputs @ [newline]
                 @ ''2. Source: BBC News, a generally reliable mainstream news source.'' @ [newline]
                 @ ''3. Recommendations: Information from BBC News is generally reliable, but for complete verification, cross-reference with other reputable sources.''
                 @ [newline, newline] @ ''**Real**''))
         \<and> suffix ''**Real**'' (bbc_formatted_output url (final_summary task_outputs))
         \<and> sublist (final_summary task_outputs) (bbc_formatted_output url (final_summary task_outputs))
         \<and> sublist url (bbc_formatted_output url (final_summary task_outputs))"
proof -
  have "fact_check_url w url =
           ([Kickoff (url_inputs url)], Inr (bbc_formatted_output url (final_summary task_outputs)))"
    using assms
    by (simp add: fact_check_url_def io_bind_def io_call_def io_return_def try_except_def)
  moreover have "bbc_formatted_output url (final_summary task_outputs) =
       ''Based on the provided content from '' @ url @ '':'' @ [newline]
                 @ ''1. Overall Assessment: '' @ final_summary task_outputs @ [newline]
                 @ ''2. Source: BBC News, a generally reliable mainstream news source.'' @ [newline]
                 @ ''3. Recommendations: Information from BBC News is generally reliable, but for complete verification, cross-reference with other reputable sources.''
                 @ [newline, newline] @ ''**Real**''"
    unfolding bbc_formatted_output_def ..
  moreover have "suffix ''**Real**'' (bbc_formatted_output url (final_summary task_outputs))"
    unfolding bbc_formatted_output_def suffix_def by (metis append.assoc)
  moreover have "sublist (final_summary task_outputs) (bbc_formatted_output url (final_summary task_outputs))"
    unfolding bbc_formatted_output_def sublist_def by (metis append.assoc)
  moreover have "sublist url (bbc_formatted_output url (final_summary task_outputs))"
    unfolding bbc_formatted_output_def sublist_def by (metis append.assoc)
  ultimately show ?thesis by simp
qed

theorem fact_check_url_bbc_real_witness:
  "is_bbc ''https://www.bbc.com/news/world-1''
   \<and> final_summary fake_task_outputs = ''3. Overall Credibility Rating: Not Credible **Fake**''
   \<and> fact_check_url bbc_report_world ''https://www.bbc.com/news/world-1'' =
        ([Kickoff (url_inputs ''https://www.bbc.com/news/world-1'')],
         Inr (''Based on the provided content from https://www.bbc.com/news/world-1:'' @ [newline]
              @ ''1. Overall Assessment: 3. Overall Credibility Rating: Not Credible **Fake**'' @ [newline]
              @ ''2. Source: BBC News, a generally reliable mainstream news source.'' @ [newline]
              @ ''3. Recommendations: Information from BBC News is generally reliable, but for complete verification, cross-reference with other reputable sources.''
              @ [newline, newline] @ ''**Real**''))"
proof -
  have a: "is_bbc ''https://www.bbc.com/news/world-1''" by code_simp
  have b: "url_pattern_match ''https://www.bbc.com/news/world-1''" by code_simp
  have c: "future_date_error (current_year bbc_report_world) ''https://www.bbc.com/news/world-1'' = None"
    by code_simp
  have d: "crew_kickoff bbc_report_world (url_inputs ''https://www.bbc.com/news/world-1'')
             = Inr (TasksOutput fake_task_outputs)"
    by (simp add: bbc_report_world_def fake_task_outputs_def)
  have e: "\<not> extraction_error (content_extraction_result fake_task_outputs)" by code_simp
  have f: "\<not> sublist ''verifiable claims'' (lower (final_summary fake_task_outputs))" by code_simp
  have g: "final_summary fake_task_outputs = ''3. Overall Credibility Rating: Not Credible **Fake**''"
    by (simp add: final_summary_def fake_task_outputs_def)
  show ?thesis
    using a g fact_check_url_bbc_real [OF a b c d e f] by simp
qed

subsection \<open>C6: what a failure looks like\<close>




subsection \<open>C1: the extractor falls back on low-quality content\<close>

text \<open>
  C1. When the scrape API answers with HTTP 200 and a true success flag, and the content
  it returns is a string of at most 100 characters after stripping, or contains
  \<open>Example Domain\<close>, \<open>FirecrawlTool._run\<close> makes the API call, enters the fallback
  scraper exactly once, for the same URL, and returns what the fallback scraper returns.
\<close>

theorem FirecrawlTool_run_low_quality_fallback:
  assumes "effective_url w url_argument = url"
    and "url \<noteq> []"
    and "prefix ''http://'' url \<or> prefix ''https://'' url"
    and "env_firecrawl_api_key w = Some key"
    and "key \<noteq> []"
    and "requests_post w url = Inr response"
    and "status_code response = 200"
    and "resp_json response = Inr data"
    and "dict_get data ''success'' JNull = Inr success"
    and "truthy success"
    and "api_content data = ([], Inr (JStr content))"
    and "length (strip content) \<le> 100 \<or> sublist ''Example Domain'' content"
  shows "fst (FirecrawlTool_run w url_argument) = [FirecrawlPost url, FallbackScrape url, HttpGet url]
       \<and> snd (FirecrawlTool_run w url_argument) = snd (fallback_scrape w url)"
proof -
  obtain s where s: "fallback_scrape w url = ([FallbackScrape url, HttpGet url], Inr s)"
    using fallback_scrape_result by blast
  have acc: "accepted_content (JStr content) = Inr None"
    using assms(12) by (auto simp: accepted_content_def)
  show ?thesis
    using assms(1-11) acc s
    by (simp add: FirecrawlTool_run_def Let_def io_bind_def io_call_def io_lift_def io_return_def
        try_except_def)
qed

theorem FirecrawlTool_run_low_quality_fallback_witness:
  "FirecrawlTool_run placeholder_api_world ''https://www.bbc.com/news/world-1'' =
     ([FirecrawlPost ''https://www.bbc.com/news/world-1'',
       FallbackScrape ''https://www.bbc.com/news/world-1'',
       HttpGet ''https://www.bbc.com/news/world-1''],
      snd (fallback_scrape placeholder_api_world ''https://www.bbc.com/news/world-1''))
   \<and> snd (fallback_scrape placeholder_api_world ''https://www.bbc.com/news/world-1'') =
       Inr ''Error scraping URL https://www.bbc.com/news/world-1: offline''"
proof -
  let ?u = "''https://www.bbc.com/news/world-1''"
  let ?data = "JObj [(''success'', JBool True), (''data'', JObj [(''markdown'', JStr ''# Example Domain'')])]"
  let ?response = "\<lparr> status_code = 200, resp_url = ''https://api.firecrawl.dev/v1/scrape'',
        resp_text = [], resp_json = Inr ?data \<rparr>"
  have a1: "effective_url placeholder_api_world ?u = ?u" by code_simp
  have a2: "?u \<noteq> []" by simp
  have a3: "prefix ''http://'' ?u \<or> prefix ''https://'' ?u" by simp
  have a4: "env_firecrawl_api_key placeholder_api_world = Some ''fc-0123456789''"
    by (simp add: placeholder_api_world_def)
  have a5: "''fc-0123456789'' \<noteq> []" by simp
  have a6: "requests_post placeholder_api_world ?u = Inr ?response"
    by (simp add: placeholder_api_world_def)
  have a7: "status_code ?response = 200" by simp
  have a8: "resp_json ?response = Inr ?data" by simp
  have a9: "dict_get ?data ''success'' JNull = Inr (JBool True)" by (simp add: dict_get_def)
  have a10: "truthy (JBool True)" by simp
  have a11: "api_content ?data = ([], Inr (JStr ''# Example Domain''))"
    by (simp add: api_content_def dict_get_def io_bind_def io_lift_def)
  have a12: "length (strip ''# Example Domain'') \<le> 100 \<or> sublist ''Example Domain'' ''# Example Domain''"
    by code_simp
  have f: "snd (fallback_scrape placeholder_api_world ?u) =
       Inr ''Error scraping URL https://www.bbc.com/news/world-1: offline''"
    by code_simp
  show ?thesis
    using FirecrawlTool_run_low_quality_fallback [OF a1 a2 a3 a4 a5 a6 a7 a8 a9 a10 a11 a12] f
    by (metis prod.collapse)
qed

subsection \<open>C2: the BBC recovery path\<close>




subsection \<open>C8: short text is an error\<close>

text \<open>
  C8. Whenever the page is fetched and parsed and the joined text of the content blocks
  has fewer than 100 characters, the fallback scraper returns the message
  \<open>Error: Could not extract meaningful content from\<close> the URL. And whatever happens,
  the string it returns is one of its error messages or the joined article text, which
  then has at least 100 characters.
\<close>

theorem fallback_scrape_short_text:
  "(\<forall>response s.
      requests_get w url = Inr response \<longrightarrow> status_code response = 200 \<longrightarrow>
      \<not> sublist ''example.com'' (lower (resp_url response)) \<longrightarrow>
      BeautifulSoup w (resp_text response) = Inr s \<longrightarrow>
      length (join_blocks (extract_content_blocks url s)) < 100 \<longrightarrow>
      snd (fallback_scrape w url) =
        Inr (''Error: Could not extract meaningful content from '' @ url @ ''.''))
   \<and> (\<forall>result. snd (fallback_scrape w url) = Inr result \<longrightarrow>
        prefix ''Error: '' result \<or> prefix ''Error scraping URL '' result
        \<or> (100 \<le> length result
           \<and> (\<exists>response s. requests_get w url = Inr response
                 \<and> BeautifulSoup w (resp_text response) = Inr s
                 \<and> result = join_blocks (extract_content_blocks url s))))"
  by (auto simp: fallback_scrape_def io_bind_def io_emit_def io_call_def io_return_def io_lift_def
      try_except_def Let_def split: sum.splits if_splits)

theorem fallback_scrape_short_text_witness:
  "join_blocks (extract_content_blocks ''https://example.org/post'' (page_soup [''Page not found.'']))
     = ''Page not found.''
   \<and> fallback_scrape empty_page_world ''https://example.org/post'' =
       ([FallbackScrape ''https://example.org/post'', HttpGet ''https://example.org/post''],
        Inr ''Error: Could not extract meaningful content from https://example.org/post.'')"
proof -
  let ?u = "''https://example.org/post''"
  let ?r = "\<lparr> status_code = 200, resp_url = ?u, resp_text = ''<html>'',
               resp_json = Inl (PyException ''not JSON'') \<rparr>"
  have a: "requests_get empty_page_world ?u = Inr ?r"
    by (simp add: empty_page_world_def page_world_def)
  have b: "status_code ?r = 200" by simp
  have c: "\<not> sublist ''example.com'' (lower (resp_url ?r))" by code_simp
  have d: "BeautifulSoup empty_page_world (resp_text ?r) = Inr (page_soup [''Page not found.''])"
    by (simp add: empty_page_world_def page_world_def)
  have e: "join_blocks (extract_content_blocks ?u (page_soup [''Page not found.''])) = ''Page not found.''"
    by code_simp
  have f: "length ''Page not found.'' < (100::nat)" by simp
  show ?thesis
    using fallback_scrape_short_text [of empty_page_world ?u] a b c d e f
      fallback_scrape_trace [of empty_page_world ?u]
    by (metis prod.collapse append_Cons append_Nil)
qed

subsection \<open>C3: the order of the extraction strategies\<close>




end
